theory Spec2Isabelle
  imports Complex_Main
begin

section \<open>Machine integers of the Go runtime\<close>

text \<open>
  Go's \<open>int\<close>, \<open>int64\<close> and \<open>time.Duration\<close> are 64-bit two's-complement integers on the
  platforms the service is built for.  They are modelled as \<open>int\<close>; where the source
  computes with data that is not a slice length, the silent wrap-around of Go's
  arithmetic is written out with \<open>wrap64\<close>.  Go's \<open>/\<close> truncates towards zero and
  panics on a zero divisor.
\<close>

definition MaxInt64 :: int where
  "MaxInt64 = 9223372036854775807"

definition MinInt64 :: int where
  "MinInt64 = - 9223372036854775808"

definition wrap64 :: "int \<Rightarrow> int" where
  "wrap64 x = (x + 9223372036854775808) mod 18446744073709551616 - 9223372036854775808"

definition tdiv :: "int \<Rightarrow> int \<Rightarrow> int" where
  "tdiv a b = (if (a < 0) = (b < 0) then \<bar>a\<bar> div \<bar>b\<bar> else - (\<bar>a\<bar> div \<bar>b\<bar>))"

text \<open>What a call does: it returns, it panics (index out of range, integer divide by
  zero), it never returns, or its value is left to the implementation by the language
  (the conversion to \<open>int\<close> of a \<open>float64\<close> that does not fit).\<close>

datatype 'a result = Returns 'a | Panics | Diverges | ImplDependent

definition go_div :: "int \<Rightarrow> int \<Rightarrow> int result" where
  "go_div a b = (if b = 0 then Panics else Returns (wrap64 (tdiv a b)))"

section \<open>Data model (package proxy)\<close>

definition LatencyWindowSize :: nat where
  "LatencyWindowSize = 100"

record RequestStats =
  AvgLatency :: int
  MaxLatency :: int
  MinLatency :: int
  TotalRequests :: int
  TotalErrors :: int
  LatencyHistory :: "int list"

text \<open>\<open>Priority\<close> is a \<open>float64\<close>.  Every value the program stores in it is an integer of
  small magnitude, which \<open>float64\<close> represents exactly; it is modelled as a real.\<close>

record IntegrityStats =
  MissingEpochs :: "int list"
  InconsistentEpochs :: "int list"
  Score :: int
  Status :: string
  Priority :: real

record EpochStats =
  CurrentEpoch :: int
  TotalEpochs :: int
  OldestSlot :: int
  LastProcessedSlot :: int

text \<open>The three statistics fields are pointers in the source: \<open>None\<close> is \<open>nil\<close>.
  \<open>LastChecked\<close> is a \<open>time.Time\<close>, modelled as a clock reading.\<close>

record Backend =
  URL :: string
  Healthy :: bool
  BlockNumber :: int
  LastChecked :: int
  NodeType :: string
  IntegrityStats :: "IntegrityStats option"
  EpochStats :: "EpochStats option"
  RequestStats :: "RequestStats option"

record Config =
  SentinelBackends :: "string list"
  ProxyPort :: int
  HealthCheckInterval :: int
  IntegrityCheckInterval :: int
  IntegrityCheckEpochs :: int
  RequestTimeout :: int
  LogLevel :: string
  SlotsPerEpoch :: int
  ArchiverThresholdEpochs :: int
  ExpectedValidators :: int
  IntegrityScoreThreshold :: int

text \<open>The registry.  Its lock is not modelled: every operation below is the sequential
  effect of one call made while holding it.\<close>

record LoadBalancer =
  cfg :: Config
  backends :: "Backend list"

text \<open>Zero values of the Go structs, as \<open>&IntegrityStats{}\<close>, \<open>&RequestStats{}\<close> and
  \<open>&EpochStats{}\<close> build them.\<close>

definition zeroIntegrityStats :: IntegrityStats where
  "zeroIntegrityStats =
     \<lparr>MissingEpochs = [], InconsistentEpochs = [], Score = 0, Status = [], Priority = 0\<rparr>"

definition zeroRequestStats :: RequestStats where
  "zeroRequestStats =
     \<lparr>AvgLatency = 0, MaxLatency = 0, MinLatency = 0, TotalRequests = 0, TotalErrors = 0,
      LatencyHistory = []\<rparr>"

definition zeroEpochStats :: EpochStats where
  "zeroEpochStats = \<lparr>CurrentEpoch = 0, TotalEpochs = 0, OldestSlot = 0, LastProcessedSlot = 0\<rparr>"

definition newBackend :: "int \<Rightarrow> string \<Rightarrow> Backend" where
  "newBackend now url =
     \<lparr>URL = url, Healthy = True, BlockNumber = 0, LastChecked = now, NodeType = [],
      IntegrityStats = Some (zeroIntegrityStats\<lparr>Score := 100, Priority := 100\<rparr>),
      EpochStats = Some zeroEpochStats,
      RequestStats = Some zeroRequestStats\<rparr>"

definition NewLoadBalancer :: "int \<Rightarrow> Config \<Rightarrow> LoadBalancer" where
  "NewLoadBalancer now c = \<lparr>cfg = c, backends = map (newBackend now) (SentinelBackends c)\<rparr>"

definition GetBackends :: "LoadBalancer \<Rightarrow> Backend list" where
  "GetBackends lb = backends lb"

section \<open>Priority computation\<close>

text \<open>\<open>Duration.Milliseconds\<close>: the duration in nanoseconds divided by \<open>10^6\<close>, truncated.\<close>

definition Milliseconds :: "int \<Rightarrow> int" where
  "Milliseconds d = tdiv d 1000000"

definition latencyBonus :: "RequestStats option \<Rightarrow> real" where
  "latencyBonus rso =
     (case rso of
        None \<Rightarrow> 0
      | Some rs \<Rightarrow>
          if AvgLatency rs > 0 then
            (let ms = real_of_int (Milliseconds (AvgLatency rs))
             in if ms < 100 then 10 else if ms < 500 then 5 else 0)
          else 0)"

definition computePriority :: "Backend \<Rightarrow> Backend" where
  "computePriority b =
     (let st = (case IntegrityStats b of
                  None \<Rightarrow> zeroIntegrityStats\<lparr>Priority := 100\<rparr>
                | Some s \<Rightarrow> s);
          priority = 100;
          priority = priority - real_of_int (int (length (MissingEpochs st)) * 10);
          priority = priority - real_of_int (int (length (InconsistentEpochs st)) * 5);
          priority = priority + latencyBonus (RequestStats b);
          priority = (if Healthy b then priority + 20 else priority)
      in b\<lparr>IntegrityStats := Some (st\<lparr>Priority := priority\<rparr>)\<rparr>)"

section \<open>Registry updates\<close>

text \<open>\<open>UpdateBackendStateByUrl\<close> walks the backends in order; at the first one whose URL
  matches it applies the mutator, recomputes the priority and returns.  The gauges it
  republishes afterwards live in the metrics exporter, outside the registry.\<close>

fun updateFirst :: "string \<Rightarrow> (Backend \<Rightarrow> Backend) \<Rightarrow> Backend list \<Rightarrow> Backend list" where
  "updateFirst url updateOp [] = []"
| "updateFirst url updateOp (b # bs) =
     (if URL b = url then computePriority (updateOp b) # bs
      else b # updateFirst url updateOp bs)"

definition UpdateBackendStateByUrl ::
  "LoadBalancer \<Rightarrow> string \<Rightarrow> (Backend \<Rightarrow> Backend) \<Rightarrow> LoadBalancer" where
  "UpdateBackendStateByUrl lb url updateOp = lb\<lparr>backends := updateFirst url updateOp (backends lb)\<rparr>"

definition UpdateIntegrityScore ::
  "LoadBalancer \<Rightarrow> string \<Rightarrow> int \<Rightarrow> int list \<Rightarrow> int list \<Rightarrow> LoadBalancer" where
  "UpdateIntegrityScore lb url score missing inconsistent =
     UpdateBackendStateByUrl lb url (\<lambda>b.
       (let st = (case IntegrityStats b of None \<Rightarrow> zeroIntegrityStats | Some s \<Rightarrow> s)
        in b\<lparr>IntegrityStats :=
               Some (st\<lparr>Score := score, MissingEpochs := missing,
                        InconsistentEpochs := inconsistent\<rparr>)\<rparr>))"

section \<open>Latency window\<close>

text \<open>The recomputation loop of \<open>recordLatency\<close>: it carries the running total (a
  \<open>time.Duration\<close>, so the sum wraps), the minimum and the maximum.\<close>

fun latencyLoop :: "int list \<Rightarrow> int \<times> int \<times> int \<Rightarrow> int \<times> int \<times> int" where
  "latencyLoop [] acc = acc"
| "latencyLoop (l # ls) (tot, mn, mx) =
     latencyLoop ls (wrap64 (tot + l), (if l < mn then l else mn), (if l > mx then l else mx))"

text \<open>After the append the history has at least one element, so the division by its
  length is defined and \<open>LatencyHistory[0]\<close> exists.\<close>

definition recordLatency :: "RequestStats \<Rightarrow> int \<Rightarrow> RequestStats" where
  "recordLatency rs d =
     (let h = (if length (LatencyHistory rs) < LatencyWindowSize
               then LatencyHistory rs @ [d]
               else tl (LatencyHistory rs) @ [d]);
          first = (case h of [] \<Rightarrow> 0 | x # _ \<Rightarrow> x);
          (tot, mn, mx) = latencyLoop h (0, first, first)
      in rs\<lparr>LatencyHistory := h,
            AvgLatency := tdiv tot (int (length h)),
            MinLatency := mn,
            MaxLatency := mx\<rparr>)"

definition UpdateBackendHealth ::
  "LoadBalancer \<Rightarrow> int \<Rightarrow> string \<Rightarrow> bool \<Rightarrow> int \<Rightarrow> int \<Rightarrow> LoadBalancer" where
  "UpdateBackendHealth lb now url healthy blockNumber latency =
     UpdateBackendStateByUrl lb url (\<lambda>b.
       (let rs = (case RequestStats b of None \<Rightarrow> zeroRequestStats | Some r \<Rightarrow> r)
        in b\<lparr>Healthy := healthy, BlockNumber := blockNumber, LastChecked := now,
              RequestStats := Some (recordLatency rs latency)\<rparr>))"

section \<open>Weighted selection\<close>

definition filterHealthy :: "LoadBalancer \<Rightarrow> Backend list" where
  "filterHealthy lb = filter Healthy (backends lb)"

text \<open>The minimum loop skips candidates without an integrity record.\<close>

fun minPriorityLoop :: "Backend list \<Rightarrow> real \<Rightarrow> real" where
  "minPriorityLoop [] minPriority = minPriority"
| "minPriorityLoop (b # bs) minPriority =
     minPriorityLoop bs
       (case IntegrityStats b of
          None \<Rightarrow> minPriority
        | Some s \<Rightarrow> if Priority s < minPriority then Priority s else minPriority)"

definition weightOf :: "real \<Rightarrow> Backend \<Rightarrow> real" where
  "weightOf minPriority b =
     (let prio = (case IntegrityStats b of None \<Rightarrow> 100 | Some s \<Rightarrow> Priority s)
      in max 1 (prio - minPriority + 10))"

text \<open>The final loop: the first candidate whose cumulative weight exceeds the draw.
  \<open>None\<close> when the loop runs to its end.\<close>

fun pickLoop :: "Backend list \<Rightarrow> real list \<Rightarrow> real \<Rightarrow> real \<Rightarrow> Backend option" where
  "pickLoop (c # cs) (w # ws) r cumulative =
     (if r < cumulative + w then Some c else pickLoop cs ws r (cumulative + w))"
| "pickLoop _ _ r cumulative = None"

text \<open>\<open>selectWeighted candidates u\<close>, with \<open>u\<close> the value \<open>rand.Float64()\<close> returns
  (in \<open>[0, 1)\<close>).  On an empty slice \<open>candidates[0]\<close> panics.\<close>

definition selectWeighted :: "Backend list \<Rightarrow> real \<Rightarrow> Backend result" where
  "selectWeighted candidates u =
     (case candidates of
        [] \<Rightarrow> Panics
      | [c] \<Rightarrow> Returns c
      | c0 # _ \<Rightarrow>
          (case IntegrityStats c0 of
             None \<Rightarrow> Returns c0
           | Some s0 \<Rightarrow>
               (let minPriority = minPriorityLoop candidates (Priority s0);
                    weights = map (weightOf minPriority) candidates;
                    totalWeight = sum_list weights;
                    r = u * totalWeight
                in case pickLoop candidates weights r 0 of
                     Some c \<Rightarrow> Returns c
                   | None \<Rightarrow> Returns c0)))"

text \<open>The three selectors filter the backends and share their tail, \<open>selectFrom\<close>:
  \<open>nil\<close> (here \<open>Returns None\<close>) when no backend qualifies, else the weighted choice.\<close>

definition selectFrom :: "Backend list \<Rightarrow> real \<Rightarrow> Backend option result" where
  "selectFrom candidates u =
     (if length candidates = 0 then Returns None
      else map_result Some (selectWeighted candidates u))"

definition GetNextBackend :: "LoadBalancer \<Rightarrow> real \<Rightarrow> Backend option result" where
  "GetNextBackend lb u = selectFrom (filterHealthy lb) u"

definition GetArchiverBackend :: "LoadBalancer \<Rightarrow> real \<Rightarrow> Backend option result" where
  "GetArchiverBackend lb u =
     selectFrom (filter (\<lambda>b. Healthy b \<and> NodeType b = ''archiver'') (backends lb)) u"

definition GetPrunedBackend :: "LoadBalancer \<Rightarrow> real \<Rightarrow> Backend option result" where
  "GetPrunedBackend lb u =
     selectFrom (filter (\<lambda>b. Healthy b \<and> NodeType b = ''pruned'') (backends lb)) u"

section \<open>Forwarder\<close>

text \<open>What a handler does with a request: it answers through \<open>http.Error\<close> with a message
  and a status code, or hands the request (with its path) to the reverse proxy for a
  backend.  Each handler also returns the label triples \<open>(method, status, backend)\<close> of
  the request counters it increments before the hand-over.\<close>

datatype outcome = HttpError string int | ProxyTo Backend string

type_synonym counterLabels = "string \<times> string \<times> string"

definition StatusServiceUnavailable :: int where
  "StatusServiceUnavailable = 503"

definition Forward :: "LoadBalancer \<Rightarrow> real \<Rightarrow> string \<Rightarrow> (counterLabels list \<times> outcome) result" where
  "Forward lb u path =
     (case GetNextBackend lb u of
        Returns None \<Rightarrow>
          Returns ([(''proxy'', ''503'', ''none'')],
                   HttpError ''No healthy backends available'' StatusServiceUnavailable)
      | Returns (Some backend) \<Rightarrow> Returns ([], ProxyTo backend path)
      | Panics \<Rightarrow> Panics
      | Diverges \<Rightarrow> Diverges
      | ImplDependent \<Rightarrow> ImplDependent)"

definition ForwardArchiver ::
  "LoadBalancer \<Rightarrow> real \<Rightarrow> string \<Rightarrow> (counterLabels list \<times> outcome) result" where
  "ForwardArchiver lb u path =
     (case GetArchiverBackend lb u of
        Returns None \<Rightarrow>
          Returns ([], HttpError ''No healthy archiver backend available'' StatusServiceUnavailable)
      | Returns (Some backend) \<Rightarrow> Returns ([], ProxyTo backend ''/'')
      | Panics \<Rightarrow> Panics
      | Diverges \<Rightarrow> Diverges
      | ImplDependent \<Rightarrow> ImplDependent)"

definition ForwardPruned ::
  "LoadBalancer \<Rightarrow> real \<Rightarrow> string \<Rightarrow> (counterLabels list \<times> outcome) result" where
  "ForwardPruned lb u path =
     (case GetPrunedBackend lb u of
        Returns None \<Rightarrow>
          Returns ([], HttpError ''No healthy pruned backends available'' StatusServiceUnavailable)
      | Returns (Some backend) \<Rightarrow> Returns ([], ProxyTo backend ''/'')
      | Panics \<Rightarrow> Panics
      | Diverges \<Rightarrow> Diverges
      | ImplDependent \<Rightarrow> ImplDependent)"

section \<open>Floating point (package math)\<close>

text \<open>
  The epoch analyzer computes its score in \<open>float64\<close> and divides by configuration
  values that may be zero, so infinities are part of the model.  A finite \<open>float64\<close> is
  modelled by the real number it stands for: the rounding of each operation to the
  nearest representable value is not modelled.  Both zeros are \<open>Fin 0\<close>; every divisor of
  the program is converted from an \<open>int\<close>, so a zero divisor is \<open>+0\<close>.
\<close>

datatype float64 = Fin real | PInf | NInf | NaN

definition float_of_int :: "int \<Rightarrow> float64" where
  "float_of_int i = Fin (real_of_int i)"

fun fabs :: "float64 \<Rightarrow> float64" where
  "fabs (Fin x) = Fin \<bar>x\<bar>"
| "fabs PInf = PInf"
| "fabs NInf = PInf"
| "fabs NaN = NaN"

fun fsub :: "float64 \<Rightarrow> float64 \<Rightarrow> float64" where
  "fsub (Fin a) (Fin b) = Fin (a - b)"
| "fsub NaN y = NaN"
| "fsub x NaN = NaN"
| "fsub PInf PInf = NaN"
| "fsub NInf NInf = NaN"
| "fsub PInf y = PInf"
| "fsub NInf y = NInf"
| "fsub (Fin a) PInf = NInf"
| "fsub (Fin a) NInf = PInf"

fun infTimes :: "bool \<Rightarrow> real \<Rightarrow> float64" where
  "infTimes positive b =
     (if b = 0 then NaN else if (0 < b) = positive then PInf else NInf)"

fun fmul :: "float64 \<Rightarrow> float64 \<Rightarrow> float64" where
  "fmul (Fin a) (Fin b) = Fin (a * b)"
| "fmul NaN y = NaN"
| "fmul x NaN = NaN"
| "fmul PInf (Fin b) = infTimes True b"
| "fmul NInf (Fin b) = infTimes False b"
| "fmul (Fin a) PInf = infTimes True a"
| "fmul (Fin a) NInf = infTimes False a"
| "fmul PInf PInf = PInf"
| "fmul NInf NInf = PInf"
| "fmul PInf NInf = NInf"
| "fmul NInf PInf = NInf"

fun fdiv :: "float64 \<Rightarrow> float64 \<Rightarrow> float64" where
  "fdiv (Fin a) (Fin b) =
     (if b \<noteq> 0 then Fin (a / b)
      else if 0 < a then PInf else if a < 0 then NInf else NaN)"
| "fdiv NaN y = NaN"
| "fdiv x NaN = NaN"
| "fdiv (Fin a) y = Fin 0"
| "fdiv PInf (Fin b) = (if 0 \<le> b then PInf else NInf)"
| "fdiv NInf (Fin b) = (if 0 \<le> b then NInf else PInf)"
| "fdiv x y = NaN"

text \<open>\<open>math.Round\<close>: to the nearest integer, halves away from zero.\<close>

definition roundHalfAway :: "real \<Rightarrow> int" where
  "roundHalfAway x = (if 0 \<le> x then \<lfloor>x + 1 / 2\<rfloor> else - \<lfloor>- x + 1 / 2\<rfloor>)"

fun fround :: "float64 \<Rightarrow> float64" where
  "fround (Fin x) = Fin (real_of_int (roundHalfAway x))"
| "fround y = y"

text \<open>\<open>math.Max\<close>: \<open>+Inf\<close> if either argument is \<open>+Inf\<close>, else \<open>NaN\<close> if either is
  \<open>NaN\<close>, else the larger.\<close>

fun fmax :: "float64 \<Rightarrow> float64 \<Rightarrow> float64" where
  "fmax PInf y = PInf"
| "fmax x PInf = PInf"
| "fmax NaN y = NaN"
| "fmax x NaN = NaN"
| "fmax NInf y = y"
| "fmax x NInf = x"
| "fmax (Fin a) (Fin b) = Fin (max a b)"

text \<open>The conversion \<open>int(f)\<close> truncates towards zero.  Go leaves its value
  implementation-dependent when \<open>f\<close> is not finite or the truncation does not fit the
  integer type; the model gives no value there.\<close>

definition truncToZero :: "real \<Rightarrow> int" where
  "truncToZero x = (if 0 \<le> x then \<lfloor>x\<rfloor> else - \<lfloor>- x\<rfloor>)"

fun int_of_float :: "float64 \<Rightarrow> int result" where
  "int_of_float (Fin x) =
     (if MinInt64 \<le> truncToZero x \<and> truncToZero x \<le> MaxInt64 then Returns (truncToZero x)
      else ImplDependent)"
| "int_of_float y = ImplDependent"

section \<open>Parsing decimal integers (package strconv)\<close>

text \<open>
  \<open>strconv.ParseInt(s, 10, 64)\<close> and \<open>strconv.Atoi(s)\<close> of the Go standard library, by
  their documented behaviour: an optional sign and then decimal digits; on an empty
  string or a character that is not a digit the value is 0 with a syntax error; when the
  number does not fit 64 bits the value is the nearest bound with a range error.  The
  digits are read left to right and the range error is raised as soon as the unsigned
  value passes \<open>2^64 - 1\<close>.
\<close>

datatype NumError = ErrSyntax | ErrRange

definition isDigit :: "char \<Rightarrow> bool" where
  "isDigit c = (48 \<le> (of_char c :: nat) \<and> (of_char c :: nat) \<le> 57)"

definition digitVal :: "char \<Rightarrow> int" where
  "digitVal c = int (of_char c) - 48"

fun parseUintLoop :: "string \<Rightarrow> int \<Rightarrow> int \<times> NumError option" where
  "parseUintLoop [] n = (n, None)"
| "parseUintLoop (c # cs) n =
     (if \<not> isDigit c then (0, Some ErrSyntax)
      else if n * 10 + digitVal c > 18446744073709551615
        then (18446744073709551615, Some ErrRange)
      else parseUintLoop cs (n * 10 + digitVal c))"

definition ParseUint :: "string \<Rightarrow> int \<times> NumError option" where
  "ParseUint s = (if s = [] then (0, Some ErrSyntax) else parseUintLoop s 0)"

definition ParseInt :: "string \<Rightarrow> int \<times> NumError option" where
  "ParseInt s =
     (case s of
        [] \<Rightarrow> (0, Some ErrSyntax)
      | c # cs \<Rightarrow>
          (let neg = (c = CHR ''-'');
               (un, err) = ParseUint (if c = CHR ''+'' \<or> c = CHR ''-'' then cs else s)
           in if err = Some ErrSyntax then (0, err)
              else if \<not> neg \<and> un \<ge> 9223372036854775808 then (MaxInt64, Some ErrRange)
              else if neg \<and> un > 9223372036854775808 then (MinInt64, Some ErrRange)
              else ((if neg then - un else un), None)))"

definition Atoi :: "string \<Rightarrow> int \<times> NumError option" where
  "Atoi s = ParseInt s"

section \<open>Epoch analyzer (package integrity)\<close>

record SlotRecord =
  Slot :: string
  Status :: string
  Validator :: string

record EpochAnalysisInput =
  EpochNumber :: int
  Records :: "SlotRecord list"
  ExpectedValidatorsPerEpoch :: int
  SlotsPerEpoch :: int

record EpochIntegrityResult =
  EpochNumber :: int
  TotalValidators :: int
  BlockMissedCount :: int
  BlockMinedCount :: int
  BlockProposedCount :: int
  AttestationSentCount :: int
  AttestationMissedCount :: int
  EmptyValidators :: int
  Issues :: "string list"
  ExpectedValidatorsPerEpoch :: int
  IntegrityScore :: int
  IntegrityStatus :: string

text \<open>\<open>len(validators)\<close>: the number of distinct non-empty validator strings among the
  records; \<open>counts[s]\<close>: the number of records whose status is \<open>s\<close>.\<close>

definition uniqueValidators :: "SlotRecord list \<Rightarrow> int" where
  "uniqueValidators records =
     int (length (remdups (filter (\<lambda>v. v \<noteq> []) (map Validator records))))"

definition counts :: "SlotRecord list \<Rightarrow> string \<Rightarrow> int" where
  "counts records s = int (length (filter (\<lambda>r. SlotRecord.Status r = s) records))"

text \<open>The four rules, each on the pair of the running score and the issue list.\<close>

definition rule1 :: "int \<Rightarrow> int \<Rightarrow> float64 \<times> string list \<Rightarrow> float64 \<times> string list" where
  "rule1 totalValidators expectedValidators acc =
     (case acc of (score, issues) \<Rightarrow>
        if totalValidators > expectedValidators
        then (fsub score (Fin 40), issues @ [''Has too many unique validators''])
        else (score, issues))"

definition rule2 :: "int \<Rightarrow> int \<Rightarrow> float64 \<times> string list \<Rightarrow> float64 \<times> string list" where
  "rule2 totalBlockRecords slotsPerEpoch acc =
     (case acc of (score, issues) \<Rightarrow>
        if totalBlockRecords \<noteq> slotsPerEpoch then
          (let diff = fabs (float_of_int (wrap64 (totalBlockRecords - slotsPerEpoch)));
               penalty = fmul (fdiv diff (float_of_int slotsPerEpoch)) (Fin 30)
           in (fsub score penalty, issues @ [''Block record count mismatch'']))
        else (score, issues))"

definition rule3 ::
  "int \<Rightarrow> int \<Rightarrow> int \<Rightarrow> int \<Rightarrow> float64 \<times> string list \<Rightarrow> float64 \<times> string list" where
  "rule3 totalAttestations expectedAttestations slotsPerEpoch expectedValidators acc =
     (case acc of (score, issues) \<Rightarrow>
        if totalAttestations \<noteq> expectedAttestations \<and> expectedAttestations > 0 then
          (let diff = fabs (float_of_int (wrap64 (totalAttestations - expectedAttestations)));
               maxDiff = float_of_int (wrap64 (slotsPerEpoch * expectedValidators));
               penalty = fmul (fdiv diff maxDiff) (Fin 25)
           in (fsub score penalty, issues @ [''Attestation count mismatch'']))
        else (score, issues))"

definition rule4 :: "int \<Rightarrow> int \<Rightarrow> int \<Rightarrow> float64 \<times> string list \<Rightarrow> float64 \<times> string list" where
  "rule4 blockMissed emptyValidators expectedValidators acc =
     (case acc of (score, issues) \<Rightarrow>
        if blockMissed = 0 \<and> emptyValidators > 0 then
          (let penalty = fmul (fdiv (float_of_int emptyValidators)
                                    (float_of_int expectedValidators)) (Fin 20)
           in (fsub score penalty, issues @ [''Has empty validators with no block-missed'']))
        else (score, issues))"

definition statusLabel :: "int \<Rightarrow> string" where
  "statusLabel finalScore =
     (if finalScore = 100 then ''VALID''
      else if finalScore \<ge> 90 then ''WARNING''
      else if finalScore \<ge> 50 then ''PARTIAL''
      else ''INVALID'')"

text \<open>The score and the issues after the four rules, before rounding.\<close>

definition penalised :: "EpochAnalysisInput \<Rightarrow> float64 \<times> string list" where
  "penalised input =
     (let records = Records input;
          expectedValidators = EpochAnalysisInput.ExpectedValidatorsPerEpoch input;
          slotsPerEpoch = EpochAnalysisInput.SlotsPerEpoch input;
          totalValidators = uniqueValidators records;
          blockMissed = counts records ''block-missed'';
          blockMined = counts records ''block-mined'';
          blockProposed = counts records ''block-proposed'';
          attEstationSent = counts records ''attestation-sent'';
          attestationMissed = counts records ''attestation-missed'';
          emptyValidators = wrap64 (expectedValidators - totalValidators);
          emptyValidators = (if emptyValidators < 0 then 0 else emptyValidators);
          totalBlockRecords = blockMined + blockProposed + blockMissed;
          totalAttestations = attEstationSent + attestationMissed;
          slotsWithBlocks = blockMined + blockProposed;
          expectedAttestations = wrap64 (slotsWithBlocks * wrap64 (expectedValidators - 1))
      in rule4 blockMissed emptyValidators expectedValidators
           (rule3 totalAttestations expectedAttestations slotsPerEpoch expectedValidators
              (rule2 totalBlockRecords slotsPerEpoch
                 (rule1 totalValidators expectedValidators (Fin 100, [])))))"

definition rbind :: "'a result \<Rightarrow> ('a \<Rightarrow> 'b result) \<Rightarrow> 'b result" where
  "rbind m f =
     (case m of Returns x \<Rightarrow> f x | Panics \<Rightarrow> Panics | Diverges \<Rightarrow> Diverges
      | ImplDependent \<Rightarrow> ImplDependent)"

definition AnalyzeEpochIntegrity :: "EpochAnalysisInput \<Rightarrow> EpochIntegrityResult result" where
  "AnalyzeEpochIntegrity input =
     (let records = Records input;
          expectedValidators = EpochAnalysisInput.ExpectedValidatorsPerEpoch input;
          totalValidators = uniqueValidators records;
          emptyValidators = wrap64 (expectedValidators - totalValidators);
          emptyValidators = (if emptyValidators < 0 then 0 else emptyValidators);
          (score, issues) = penalised input
      in rbind (int_of_float (fmax (Fin 0) (fround score))) (\<lambda>finalScore.
           Returns
             \<lparr>EpochIntegrityResult.EpochNumber = EpochAnalysisInput.EpochNumber input,
              TotalValidators = totalValidators,
              BlockMissedCount = counts records ''block-missed'',
              BlockMinedCount = counts records ''block-mined'',
              BlockProposedCount = counts records ''block-proposed'',
              AttestationSentCount = counts records ''attestation-sent'',
              AttestationMissedCount = counts records ''attestation-missed'',
              EmptyValidators = emptyValidators,
              Issues = issues,
              EpochIntegrityResult.ExpectedValidatorsPerEpoch = expectedValidators,
              IntegrityScore = finalScore,
              IntegrityStatus = statusLabel finalScore\<rparr>))"

section \<open>Validator statistics (package rpc)\<close>

record ValidatorHistoryItem =
  Slot :: string
  Status :: string

record ValidatorStats =
  History :: "ValidatorHistoryItem list"

text \<open>\<open>Stats\<close> is a Go map from validator address to its statistics.  It is modelled by
  the list of its entries in the order in which the \<open>range\<close> loop of \<open>processStats\<close>
  visits them (Go does not fix that order); the addresses of a map are distinct.\<close>

record GetValidatorsStatsResponse =
  LastProcessedSlot :: string
  Stats :: "(string \<times> ValidatorStats) list"

section \<open>Integrity prober (package health)\<close>

text \<open>\<open>epochRecords\<close>, a Go map from epoch to the records binned into it, as an association
  list with one entry per epoch.  \<open>addRecord\<close> is
  \<open>epochRecords[epoch] = append(epochRecords[epoch], record)\<close> and \<open>lookupRecords\<close> is
  \<open>epochRecords[epoch]\<close>, the empty slice for an absent key.\<close>

type_synonym epochMap = "(int \<times> SlotRecord list) list"

fun addRecord :: "int \<Rightarrow> SlotRecord \<Rightarrow> epochMap \<Rightarrow> epochMap" where
  "addRecord epoch r [] = [(epoch, [r])]"
| "addRecord epoch r ((k, rs) # m) =
     (if k = epoch then (k, rs @ [r]) # m else (k, rs) # addRecord epoch r m)"

definition lookupRecords :: "epochMap \<Rightarrow> int \<Rightarrow> SlotRecord list" where
  "lookupRecords m epoch = (case map_of m epoch of None \<Rightarrow> [] | Some rs \<Rightarrow> rs)"

text \<open>The inner loop of \<open>processStats\<close> over one validator's history and the outer loop
  over the validators.  The error of \<open>ParseInt\<close> is dropped and its value kept; the
  division panics when \<open>slotsPerEpoch\<close> is 0.\<close>

fun historyLoop ::
  "int \<Rightarrow> string \<Rightarrow> ValidatorHistoryItem list \<Rightarrow> epochMap \<times> int \<Rightarrow> (epochMap \<times> int) result" where
  "historyLoop slotsPerEpoch addr [] acc = Returns acc"
| "historyLoop slotsPerEpoch addr (item # items) acc =
     (case acc of (epochRecords, oldestSlot) \<Rightarrow>
        (let slot = fst (ParseInt (ValidatorHistoryItem.Slot item))
         in rbind (go_div slot slotsPerEpoch) (\<lambda>epoch.
              historyLoop slotsPerEpoch addr items
                (addRecord epoch
                   \<lparr>SlotRecord.Slot = ValidatorHistoryItem.Slot item,
                    SlotRecord.Status = ValidatorHistoryItem.Status item,
                    Validator = addr\<rparr> epochRecords,
                 (if slot < oldestSlot then slot else oldestSlot)))))"

fun statsLoop ::
  "int \<Rightarrow> (string \<times> ValidatorStats) list \<Rightarrow> epochMap \<times> int \<Rightarrow> (epochMap \<times> int) result" where
  "statsLoop slotsPerEpoch [] acc = Returns acc"
| "statsLoop slotsPerEpoch ((addr, validator) # rest) acc =
     rbind (historyLoop slotsPerEpoch addr (History validator) acc)
           (statsLoop slotsPerEpoch rest)"

definition processStats ::
  "Config \<Rightarrow> GetValidatorsStatsResponse \<Rightarrow> (epochMap \<times> int list \<times> int) result" where
  "processStats c stats =
     (let slotsPerEpoch = Config.SlotsPerEpoch c;
          oldestSlot = fst (ParseInt (GetValidatorsStatsResponse.LastProcessedSlot stats))
      in rbind (statsLoop slotsPerEpoch (Stats stats) ([], oldestSlot))
           (\<lambda>(epochRecords, oldestSlot).
              Returns (epochRecords, sort (map fst epochRecords), oldestSlot)))"

text \<open>The gap loop \<open>for e := minEpoch; e <= maxEpoch; e++\<close>.  When \<open>maxEpoch\<close> is the
  largest \<open>int64\<close> the increment wraps and the condition never fails.\<close>

function gapLoop :: "int \<Rightarrow> int \<Rightarrow> int list \<Rightarrow> int list" where
  "gapLoop e maxEpoch epochs =
     (if e \<le> maxEpoch
      then (if e \<in> set epochs then [] else [e]) @ gapLoop (e + 1) maxEpoch epochs
      else [])"
  by pat_completeness auto
termination
  by (relation "measure (\<lambda>(e, maxEpoch, epochs). nat (maxEpoch + 1 - e))") auto

declare gapLoop.simps [simp del]

definition findGaps :: "int \<Rightarrow> int \<Rightarrow> int list \<Rightarrow> int list result" where
  "findGaps minEpoch maxEpoch epochs =
     (if maxEpoch = MaxInt64 then Diverges else Returns (gapLoop minEpoch maxEpoch epochs))"

text \<open>The per-epoch loop.  Its state is \<open>inconsistentEpochs\<close>, \<open>currentTotalIntegrity\<close>,
  \<open>currentTotalIntegrityCount\<close> and \<open>currentAvgIntegrity\<close>; \<open>continue\<close> goes on with
  the rest of the epochs, \<open>break\<close> returns the state.\<close>

fun epochLoop ::
  "Config \<Rightarrow> epochMap \<Rightarrow> int \<Rightarrow> int \<Rightarrow> int \<Rightarrow> int list \<Rightarrow> int list \<times> int \<times> int \<times> int
     \<Rightarrow> (int list \<times> int \<times> int \<times> int) result" where
  "epochLoop c epochRecords totalEpochs minEpoch currentEpoch [] acc = Returns acc"
| "epochLoop c epochRecords totalEpochs minEpoch currentEpoch (epoch # rest) acc =
     (case acc of (inconsistentEpochs, tot, cnt, avg) \<Rightarrow>
        if epoch \<ge> currentEpoch
          then epochLoop c epochRecords totalEpochs minEpoch currentEpoch rest acc
        else if totalEpochs \<le> IntegrityCheckEpochs c \<and> epoch = minEpoch
          then Returns acc
        else
          rbind (AnalyzeEpochIntegrity
                   \<lparr>EpochAnalysisInput.EpochNumber = epoch,
                    Records = lookupRecords epochRecords epoch,
                    EpochAnalysisInput.ExpectedValidatorsPerEpoch = ExpectedValidators c,
                    EpochAnalysisInput.SlotsPerEpoch = Config.SlotsPerEpoch c\<rparr>)
            (\<lambda>res.
               (let inconsistentEpochs =
                      (if IntegrityScore res < 100 then inconsistentEpochs @ [epoch]
                       else inconsistentEpochs);
                    tot = wrap64 (tot + IntegrityScore res);
                    cnt = cnt + 1
                in epochLoop c epochRecords totalEpochs minEpoch currentEpoch rest
                     (inconsistentEpochs, tot, cnt, tdiv tot cnt))))"

text \<open>The mutator of the write-back.\<close>

definition writeBack ::
  "Config \<Rightarrow> GetValidatorsStatsResponse \<Rightarrow> int \<Rightarrow> int list \<Rightarrow> int list \<Rightarrow> int \<Rightarrow> int \<Rightarrow> int
     \<Rightarrow> Backend \<Rightarrow> Backend" where
  "writeBack c stats currentAvgIntegrity missingEpochs inconsistentEpochs totalEpochs
     currentEpoch oldestSlot b =
     (let st = (case IntegrityStats b of None \<Rightarrow> zeroIntegrityStats | Some s \<Rightarrow> s);
          es = (case EpochStats b of None \<Rightarrow> zeroEpochStats | Some e \<Rightarrow> e);
          st = st\<lparr>Score := currentAvgIntegrity, MissingEpochs := missingEpochs,
                  InconsistentEpochs := inconsistentEpochs\<rparr>;
          es = es\<lparr>TotalEpochs := totalEpochs\<rparr>;
          nodeType = (if TotalEpochs es > ArchiverThresholdEpochs c
                      then ''archiver'' else ''pruned'');
          es = es\<lparr>EpochStats.LastProcessedSlot :=
                    fst (Atoi (GetValidatorsStatsResponse.LastProcessedSlot stats)),
                  CurrentEpoch := currentEpoch, OldestSlot := oldestSlot\<rparr>;
          st = st\<lparr>IntegrityStats.Status :=
                    (if currentAvgIntegrity = 100 then ''perfect''
                     else if currentAvgIntegrity > IntegrityScoreThreshold c then ''good''
                     else ''bad'')\<rparr>
      in b\<lparr>NodeType := nodeType, IntegrityStats := Some st, EpochStats := Some es\<rparr>)"

text \<open>\<open>checkBackendIntegrity\<close>, with the outcome of the \<open>GetValidatorsStats\<close> call as an
  argument: \<open>Inl\<close> is the error of a failed call.  The slice expression
  \<open>epochs[totalEpochs-checkCount:]\<close> panics when \<open>checkCount\<close> is negative, and
  \<open>epochs[0]\<close> panics when the trimmed slice is empty.\<close>

definition trimEpochs :: "int \<Rightarrow> int list \<Rightarrow> int list result" where
  "trimEpochs checkCount epochs =
     (let totalEpochs = int (length epochs)
      in if totalEpochs > checkCount then
           (if checkCount < 0 then Panics
            else Returns (drop (nat (totalEpochs - checkCount)) epochs))
         else Returns epochs)"

definition checkBackendIntegrity ::
  "Config \<Rightarrow> LoadBalancer \<Rightarrow> string \<Rightarrow> string + GetValidatorsStatsResponse
     \<Rightarrow> LoadBalancer result" where
  "checkBackendIntegrity c lb url rpc =
     (case rpc of
        Inl err \<Rightarrow> Returns lb
      | Inr stats \<Rightarrow>
          rbind (processStats c stats) (\<lambda>(epochRecords, epochs, oldestSlot).
            let totalEpochs = int (length epochs)
            in if totalEpochs = 0 then Returns lb
               else
                 rbind (trimEpochs (IntegrityCheckEpochs c) epochs) (\<lambda>epochs.
                   case epochs of
                     [] \<Rightarrow> Panics
                   | minEpoch # _ \<Rightarrow>
                       let maxEpoch = last epochs
                       in rbind (findGaps minEpoch maxEpoch epochs) (\<lambda>missingEpochs.
                            let currentSlot =
                                  fst (Atoi (GetValidatorsStatsResponse.LastProcessedSlot stats))
                            in rbind (go_div currentSlot (Config.SlotsPerEpoch c))
                                 (\<lambda>currentEpoch.
                                    rbind (epochLoop c epochRecords totalEpochs minEpoch
                                             currentEpoch epochs ([], 0, 0, 100))
                                      (\<lambda>(inconsistentEpochs, tot, cnt, currentAvgIntegrity).
                                         Returns
                                           (UpdateBackendStateByUrl lb url
                                              (writeBack c stats currentAvgIntegrity
                                                 missingEpochs inconsistentEpochs
                                                 totalEpochs currentEpoch oldestSlot))))))))"

section \<open>Concrete registries and inputs\<close>

text \<open>The default configuration of \<open>config.Load\<close> for a given backend list (durations in
  nanoseconds), and the registry built from it for one backend.\<close>

definition defaultConfig :: "string list \<Rightarrow> Config" where
  "defaultConfig urls =
     \<lparr>SentinelBackends = urls, ProxyPort = 8080, HealthCheckInterval = 30000000000,
      IntegrityCheckInterval = 60000000000, IntegrityCheckEpochs = 10,
      RequestTimeout = 30000000000, LogLevel = ''info'', Config.SlotsPerEpoch = 32,
      ArchiverThresholdEpochs = 100, ExpectedValidators = 24, IntegrityScoreThreshold = 95\<rparr>"

definition freshRegistry :: LoadBalancer where
  "freshRegistry = NewLoadBalancer 0 (defaultConfig [''http://node1''])"

text \<open>The registry of one backend after a readiness probe that failed, and the fresh
  registry after one update with a mutator that changes nothing.\<close>

definition unhealthyRegistry :: LoadBalancer where
  "unhealthyRegistry = UpdateBackendHealth freshRegistry 0 ''http://node1'' False 0 0"


section \<open>Weighted selection in the words of the specification\<close>







section \<open>Ranges of the analyzer's running score\<close>



text \<open>Two analyzer inputs: the epoch of the repository's integrity test (two slots, two
  validators, every record as expected), and the default validator count with a negative
  \<open>slotsPerEpoch\<close> and no records.\<close>

definition perfectEpochInput :: EpochAnalysisInput where
  "perfectEpochInput =
     \<lparr>EpochAnalysisInput.EpochNumber = 10,
      Records =
        [\<lparr>SlotRecord.Slot = ''20'', SlotRecord.Status = ''block-mined'', Validator = ''0x1''\<rparr>,
         \<lparr>SlotRecord.Slot = ''21'', SlotRecord.Status = ''attestation-sent'', Validator = ''0x1''\<rparr>,
         \<lparr>SlotRecord.Slot = ''20'', SlotRecord.Status = ''attestation-sent'', Validator = ''0x2''\<rparr>,
         \<lparr>SlotRecord.Slot = ''21'', SlotRecord.Status = ''block-mined'', Validator = ''0x2''\<rparr>],
      EpochAnalysisInput.ExpectedValidatorsPerEpoch = 2,
      EpochAnalysisInput.SlotsPerEpoch = 2\<rparr>"


text \<open>The repository's integrity test: two slots per epoch, two expected validators, one
  observed epoch (10) and \<open>lastProcessedSlot = 22\<close>; and the registry the check leaves
  behind on the registry built from a configuration of that shape.\<close>

definition perfectConfig :: Config where
  "perfectConfig =
     \<lparr>SentinelBackends = [''http://node1''], ProxyPort = 0, HealthCheckInterval = 0,
      IntegrityCheckInterval = 0, IntegrityCheckEpochs = 10, RequestTimeout = 0, LogLevel = [],
      Config.SlotsPerEpoch = 2, ArchiverThresholdEpochs = 0, ExpectedValidators = 2,
      IntegrityScoreThreshold = 95\<rparr>"

definition perfectStats :: GetValidatorsStatsResponse where
  "perfectStats =
     \<lparr>GetValidatorsStatsResponse.LastProcessedSlot = ''22'',
      Stats =
        [(''0x1'', \<lparr>History =
            [\<lparr>ValidatorHistoryItem.Slot = ''20'', ValidatorHistoryItem.Status = ''block-mined''\<rparr>,
             \<lparr>ValidatorHistoryItem.Slot = ''21'', ValidatorHistoryItem.Status = ''attestation-sent''\<rparr>]\<rparr>),
         (''0x2'', \<lparr>History =
            [\<lparr>ValidatorHistoryItem.Slot = ''20'', ValidatorHistoryItem.Status = ''attestation-sent''\<rparr>,
             \<lparr>ValidatorHistoryItem.Slot = ''21'', ValidatorHistoryItem.Status = ''block-mined''\<rparr>]\<rparr>)]\<rparr>"

definition perfectChecked :: "Config \<Rightarrow> LoadBalancer" where
  "perfectChecked c =
     \<lparr>cfg = c,
      backends =
        [\<lparr>URL = ''http://node1'', Healthy = True, BlockNumber = 0, LastChecked = 0,
          NodeType = ''archiver'',
          IntegrityStats =
            Some \<lparr>MissingEpochs = [], InconsistentEpochs = [], Score = 100,
                  IntegrityStats.Status = ''perfect'', Priority = 120\<rparr>,
          EpochStats =
            Some \<lparr>CurrentEpoch = 11, TotalEpochs = 1, OldestSlot = 20,
                  EpochStats.LastProcessedSlot = 22\<rparr>,
          RequestStats = Some zeroRequestStats\<rparr>]\<rparr>"



section \<open>Verified properties\<close>

subsection \<open>Priority computation\<close>

lemma latencyBonus_range: "0 \<le> latencyBonus rso \<and> latencyBonus rso \<le> 10"
  by (simp add: latencyBonus_def Let_def split: option.split)

lemma computePriority_stats:
  "IntegrityStats (computePriority b) =
     Some ((case IntegrityStats b of None \<Rightarrow> zeroIntegrityStats\<lparr>Priority := 100\<rparr> | Some s \<Rightarrow> s)
       \<lparr>Priority := 100
          - 10 * real (length (MissingEpochs
              (case IntegrityStats b of None \<Rightarrow> zeroIntegrityStats\<lparr>Priority := 100\<rparr> | Some s \<Rightarrow> s)))
          - 5 * real (length (InconsistentEpochs
              (case IntegrityStats b of None \<Rightarrow> zeroIntegrityStats\<lparr>Priority := 100\<rparr> | Some s \<Rightarrow> s)))
          + latencyBonus (RequestStats b) + (if Healthy b then 20 else 0)\<rparr>)"
  by (simp add: computePriority_def Let_def)

text \<open>
  Claim C1, as amended.  After \<open>computePriority\<close> the backend has an integrity record whose
  priority is \<open>100 - 10 * |missingEpochs| - 5 * |inconsistentEpochs|\<close> plus the latency bonus
  (0, 5 or 10) plus 20 when the backend is healthy.  No lower bound is applied: the
  priority is at least \<open>100 - 10 * |missingEpochs| - 5 * |inconsistentEpochs|\<close>, and it is
  at least 1 whenever \<open>10 * |missingEpochs| + 5 * |inconsistentEpochs| \<le> 99\<close>.
\<close>

theorem computePriority_lower_bound:
  "\<exists>st. IntegrityStats (computePriority b) = Some st
     \<and> Priority st = 100 - 10 * real (length (MissingEpochs st))
                       - 5 * real (length (InconsistentEpochs st))
                       + latencyBonus (RequestStats b) + (if Healthy b then 20 else 0)
     \<and> 100 - 10 * real (length (MissingEpochs st)) - 5 * real (length (InconsistentEpochs st))
         \<le> Priority st
     \<and> (10 * length (MissingEpochs st) + 5 * length (InconsistentEpochs st) \<le> 99
          \<longrightarrow> 1 \<le> Priority st)"
proof -
  let ?st0 = "case IntegrityStats b of None \<Rightarrow> zeroIntegrityStats\<lparr>Priority := 100\<rparr> | Some s \<Rightarrow> s"
  let ?p = "100 - 10 * real (length (MissingEpochs ?st0))
            - 5 * real (length (InconsistentEpochs ?st0))
            + latencyBonus (RequestStats b) + (if Healthy b then 20 else 0)"
  have eq: "IntegrityStats (computePriority b) = Some (?st0\<lparr>Priority := ?p\<rparr>)"
    by (rule computePriority_stats)
  have bonus: "0 \<le> latencyBonus (RequestStats b)"
    using latencyBonus_range by blast
  have low: "100 - 10 * real (length (MissingEpochs ?st0))
             - 5 * real (length (InconsistentEpochs ?st0)) \<le> ?p"
    using bonus by simp
  have one: "10 * length (MissingEpochs ?st0) + 5 * length (InconsistentEpochs ?st0) \<le> 99
             \<longrightarrow> 1 \<le> ?p"
  proof
    assume "10 * length (MissingEpochs ?st0) + 5 * length (InconsistentEpochs ?st0) \<le> 99"
    then have "real (10 * length (MissingEpochs ?st0) + 5 * length (InconsistentEpochs ?st0)) \<le> 99"
      by (metis of_nat_le_iff of_nat_numeral)
    then have "10 * real (length (MissingEpochs ?st0))
               + 5 * real (length (InconsistentEpochs ?st0)) \<le> 99"
      by simp
    with low show "1 \<le> ?p" by linarith
  qed
  show ?thesis
    apply (rule exI [of _ "?st0\<lparr>Priority := ?p\<rparr>"])
    using eq low one by simp
qed

text \<open>Witness: a freshly constructed backend has no missing or inconsistent epochs, and its
  recomputed priority (120) is at least 1.\<close>

theorem computePriority_lower_bound_witness:
  "10 * length (MissingEpochs (zeroIntegrityStats\<lparr>Score := 100, Priority := 120\<rparr>))
     + 5 * length (InconsistentEpochs (zeroIntegrityStats\<lparr>Score := 100, Priority := 120\<rparr>)) \<le> 99
   \<and> IntegrityStats (computePriority (newBackend 0 ''http://node1''))
       = Some (zeroIntegrityStats\<lparr>Score := 100, Priority := 120\<rparr>)
   \<and> 1 \<le> Priority (zeroIntegrityStats\<lparr>Score := 100, Priority := 120\<rparr>)"
proof -
  let ?st1 = "zeroIntegrityStats\<lparr>Score := 100, Priority := 120\<rparr>"
  have st: "IntegrityStats (computePriority (newBackend 0 ''http://node1'')) = Some ?st1"
    by (simp add: computePriority_def newBackend_def zeroIntegrityStats_def
        zeroRequestStats_def latencyBonus_def)
  obtain st where a: "IntegrityStats (computePriority (newBackend 0 ''http://node1'')) = Some st"
    and imp: "10 * length (MissingEpochs st) + 5 * length (InconsistentEpochs st) \<le> 99
              \<longrightarrow> 1 \<le> Priority st"
    using computePriority_lower_bound [of "newBackend 0 ''http://node1''"] by blast
  from a st have same: "st = ?st1" by simp
  have hyp: "10 * length (MissingEpochs ?st1) + 5 * length (InconsistentEpochs ?st1) \<le> 99"
    by (simp add: zeroIntegrityStats_def)
  from imp hyp same have "1 \<le> Priority ?st1" by blast
  with st hyp show ?thesis by blast
qed

text \<open>Counterexample to C1 as stated: a registry update that records twelve missing epochs,
  followed by a readiness update that marks the backend unhealthy, leaves the stored
  priority at \<open>-20\<close>.\<close>

theorem priority_below_one_counterexample:
  "map (map_option Priority \<circ> IntegrityStats)
     (backends (UpdateBackendHealth
        (UpdateIntegrityScore freshRegistry ''http://node1'' 0
           [1, 2, 3, 4, 5, 6, 7, 8, 9, 10, 11, 12] [])
        0 ''http://node1'' False 0 0))
   = [Some (- 20)] \<and> \<not> (1 \<le> (- 20 :: real))"
  by (simp add: freshRegistry_def NewLoadBalancer_def defaultConfig_def newBackend_def
      UpdateIntegrityScore_def UpdateBackendHealth_def UpdateBackendStateByUrl_def
      computePriority_def latencyBonus_def recordLatency_def zeroIntegrityStats_def
      zeroRequestStats_def zeroEpochStats_def LatencyWindowSize_def tdiv_def wrap64_def Let_def)

subsection \<open>Update with a mutator that changes nothing\<close>












subsection \<open>Integrity probe whose RPC call fails\<close>

text \<open>
  Claim C6.  When \<open>getValidatorsStats\<close> returns an error, \<open>checkBackendIntegrity\<close> returns
  with the registry as it was: every backend keeps its whole record (integrity score,
  status, missing and inconsistent epochs, epoch statistics, node type and priority).
\<close>

theorem failed_probe_leaves_registry:
  "checkBackendIntegrity c lb url (Inl err) = Returns lb"
  by (simp add: checkBackendIntegrity_def)

text \<open>The same at the fresh registry of one backend.\<close>

theorem failed_probe_leaves_registry_witness:
  "checkBackendIntegrity (defaultConfig [''http://node1'']) freshRegistry ''http://node1''
     (Inl ''connection refused'') = Returns freshRegistry
   \<and> backends freshRegistry = [newBackend 0 ''http://node1'']"
  using failed_probe_leaves_registry
    [of "defaultConfig [''http://node1'']" freshRegistry "''http://node1''" "''connection refused''"]
  by (simp add: freshRegistry_def NewLoadBalancer_def defaultConfig_def)

subsection \<open>Forwarder without a candidate\<close>

lemma unhealthy_backends: "filter Healthy (backends unhealthyRegistry) = []"
  by (simp add: unhealthyRegistry_def freshRegistry_def NewLoadBalancer_def defaultConfig_def newBackend_def
      UpdateBackendHealth_def UpdateBackendStateByUrl_def computePriority_def Let_def)

text \<open>
  Claim C3, evaluated on a registry whose only backend is unhealthy.  \<open>Forward\<close> answers
  503 with \<open>No healthy backends available\<close> and increments the counter labelled
  \<open>status=503, backend=none\<close>.  \<open>ForwardArchiver\<close> and \<open>ForwardPruned\<close> answer 503 and
  increment no counter, and the message of \<open>ForwardArchiver\<close> reads \<open>backend\<close>, not
  \<open>backends\<close>.
\<close>

theorem no_candidate_responses:
  "Forward unhealthyRegistry u ''/''
     = Returns ([(''proxy'', ''503'', ''none'')],
                HttpError ''No healthy backends available'' 503)
   \<and> ForwardArchiver unhealthyRegistry u ''/archiver''
     = Returns ([], HttpError ''No healthy archiver backend available'' 503)
   \<and> ForwardPruned unhealthyRegistry u ''/pruned''
     = Returns ([], HttpError ''No healthy pruned backends available'' 503)"
  using unhealthy_backends
  by (simp add: Forward_def ForwardArchiver_def ForwardPruned_def GetNextBackend_def
      GetArchiverBackend_def GetPrunedBackend_def selectFrom_def filterHealthy_def
      StatusServiceUnavailable_def filter_empty_conv)

subsection \<open>Weighted selection\<close>











subsection \<open>Latency window\<close>

lemma wrap64_id: "- 9223372036854775808 \<le> x \<Longrightarrow> x < 9223372036854775808 \<Longrightarrow> wrap64 x = x"
  by (simp add: wrap64_def)

lemma tdiv_pos: "0 < n \<Longrightarrow> tdiv s n = (if 0 \<le> s then s div n else - ((- s) div n))"
  by (auto simp: tdiv_def)

lemma div_between:
  fixes n :: int
  assumes n: "0 < n" and lo: "n * a \<le> s" and hi: "s \<le> n * b"
  shows "a \<le> s div n \<and> s div n \<le> b"
proof -
  have "(n * a) div n \<le> s div n" using lo n by (rule zdiv_mono1)
  moreover have "s div n \<le> (n * b) div n" using hi n by (rule zdiv_mono1)
  ultimately show ?thesis using n by simp
qed

lemma tdiv_between:
  assumes n: "0 < n" and lo: "n * a \<le> s" and hi: "s \<le> n * b"
  shows "a \<le> tdiv s n \<and> tdiv s n \<le> b"
proof (cases "0 \<le> s")
  case True
  with div_between [OF n lo hi] n show ?thesis by (simp add: tdiv_pos)
next
  case False
  have "n * (- b) \<le> - s" "- s \<le> n * (- a)" using lo hi by simp_all
  from div_between [OF n this] False n show ?thesis by (simp add: tdiv_pos)
qed

text \<open>The loop without overflow: the total is the sum, the extremes are folded in.\<close>

lemma latencyLoop_exact:
  "\<forall>x\<in>set ls. \<bar>x\<bar> \<le> B \<Longrightarrow> \<bar>tot\<bar> \<le> int k * B \<Longrightarrow>
   (int k + int (length ls)) * B < 9223372036854775808 \<Longrightarrow>
   latencyLoop ls (tot, mn, mx) = (tot + sum_list ls, fold min ls mn, fold max ls mx)"
proof (induction ls arbitrary: tot mn mx k)
  case Nil
  then show ?case by simp
next
  case (Cons l ls)
  have l: "\<bar>l\<bar> \<le> B" using Cons.prems(1) by simp
  then have B0: "0 \<le> B" by linarith
  have step: "\<bar>tot + l\<bar> \<le> int (Suc k) * B"
    using Cons.prems(2) l by (simp add: algebra_simps)
  have "int (Suc k) * B \<le> (int k + int (length (l # ls))) * B"
    using B0 by (intro mult_right_mono) simp_all
  with Cons.prems(3) step have "\<bar>tot + l\<bar> < 9223372036854775808" by linarith
  then have w: "wrap64 (tot + l) = tot + l" by (intro wrap64_id) linarith+
  have "latencyLoop ls (tot + l, (if l < mn then l else mn), (if l > mx then l else mx))
        = (tot + l + sum_list ls, fold min ls (if l < mn then l else mn),
           fold max ls (if l > mx then l else mx))"
    using Cons.prems by (intro Cons.IH [OF _ step]) (simp_all add: algebra_simps)
  moreover have "(if l < mn then l else mn) = min l mn" "(if l > mx then l else mx) = max l mx"
    by (simp_all add: min_def max_def)
  ultimately show ?case using w by (simp add: add.assoc)
qed

lemma fold_min_Min: "fold min ls (m :: int) = Min (insert m (set ls))"
proof (induction ls arbitrary: m)
  case Nil
  then show ?case by simp
next
  case (Cons l ls)
  have "Min (insert (min l m) (set ls)) = Min (insert m (insert l (set ls)))"
    by (cases "set ls = {}") (simp_all add: min.commute min.assoc min.left_commute)
  with Cons show ?case by simp
qed

lemma fold_max_Max: "fold max ls (m :: int) = Max (insert m (set ls))"
proof (induction ls arbitrary: m)
  case Nil
  then show ?case by simp
next
  case (Cons l ls)
  have "Max (insert (max l m) (set ls)) = Max (insert m (insert l (set ls)))"
    by (cases "set ls = {}") (simp_all add: max.commute max.assoc max.left_commute)
  with Cons show ?case by simp
qed

lemma sum_list_bounds:
  fixes h :: "int list"
  shows "int (length h) * Min (set h) \<le> sum_list h \<and> sum_list h \<le> int (length h) * Max (set h)"
proof -
  have "sum_list (map (\<lambda>x. Min (set h)) h) \<le> sum_list (map (\<lambda>x. x) h)"
    by (rule sum_list_mono) simp
  moreover have "sum_list (map (\<lambda>x. x) h) \<le> sum_list (map (\<lambda>x. Max (set h)) h)"
    by (rule sum_list_mono) simp
  ultimately show ?thesis by (simp add: sum_list_triv)
qed

lemma sum_list_abs_bound:
  fixes h :: "int list"
  assumes "\<forall>x\<in>set h. \<bar>x\<bar> \<le> B"
  shows "\<bar>sum_list h\<bar> \<le> int (length h) * B"
  using assms by (induction h) (auto simp: algebra_simps)

text \<open>One call, on a window within its bounds.\<close>

lemma recordLatency_step:
  assumes len: "length (LatencyHistory rs) \<le> 100"
    and old: "\<forall>x\<in>set (LatencyHistory rs). \<bar>x\<bar> \<le> 72057594037927936"
    and d: "\<bar>d\<bar> \<le> 72057594037927936"
  shows "LatencyHistory (recordLatency rs d)
           = (if length (LatencyHistory rs) < 100 then LatencyHistory rs @ [d]
              else tl (LatencyHistory rs) @ [d])"
    and "length (LatencyHistory (recordLatency rs d)) \<le> 100"
    and "LatencyHistory (recordLatency rs d) \<noteq> []"
    and "\<forall>x\<in>set (LatencyHistory (recordLatency rs d)). \<bar>x\<bar> \<le> 72057594037927936"
    and "MinLatency (recordLatency rs d) = Min (set (LatencyHistory (recordLatency rs d)))"
    and "MaxLatency (recordLatency rs d) = Max (set (LatencyHistory (recordLatency rs d)))"
    and "AvgLatency (recordLatency rs d)
           = tdiv (sum_list (LatencyHistory (recordLatency rs d)))
                  (int (length (LatencyHistory (recordLatency rs d))))"
proof -
  let ?h = "if length (LatencyHistory rs) < 100 then LatencyHistory rs @ [d]
            else tl (LatencyHistory rs) @ [d]"
  have ne: "?h \<noteq> []" by simp
  have hlen: "length ?h \<le> 100" using len by auto
  have hb: "\<forall>x\<in>set ?h. \<bar>x\<bar> \<le> 72057594037927936"
    using old d by (auto dest: list.set_sel(2) [rotated])
  obtain x xs where h: "?h = x # xs" using ne by (cases ?h) auto
  have "(int 0 + int (length ?h)) * 72057594037927936 < 9223372036854775808"
    using hlen by simp
  from latencyLoop_exact [OF hb _ this, of 0 x x]
  have loop: "latencyLoop ?h (0, x, x) = (sum_list ?h, fold min ?h x, fold max ?h x)"
    by simp
  have mn: "fold min ?h x = Min (set ?h)" and mx: "fold max ?h x = Max (set ?h)"
    unfolding fold_min_Min fold_max_Max h by (simp_all add: insert_absorb)
  have hist: "LatencyHistory (recordLatency rs d) = ?h"
    by (simp add: recordLatency_def LatencyWindowSize_def Let_def split: prod.split)
  show "LatencyHistory (recordLatency rs d) = ?h" by (rule hist)
  show "length (LatencyHistory (recordLatency rs d)) \<le> 100" using hist hlen by simp
  show "LatencyHistory (recordLatency rs d) \<noteq> []" using hist ne by simp
  show "\<forall>x\<in>set (LatencyHistory (recordLatency rs d)). \<bar>x\<bar> \<le> 72057594037927936"
    using hist hb by simp
  have first: "(case ?h of [] \<Rightarrow> 0 | y # _ \<Rightarrow> y) = x" using h by simp
  have rl: "recordLatency rs d
      = rs\<lparr>LatencyHistory := ?h, AvgLatency := tdiv (sum_list ?h) (int (length ?h)),
           MinLatency := Min (set ?h), MaxLatency := Max (set ?h)\<rparr>"
    unfolding recordLatency_def LatencyWindowSize_def Let_def first loop mn mx by simp
  show "MinLatency (recordLatency rs d) = Min (set (LatencyHistory (recordLatency rs d)))"
    unfolding hist by (subst rl) simp
  show "MaxLatency (recordLatency rs d) = Max (set (LatencyHistory (recordLatency rs d)))"
    unfolding hist by (subst rl) simp
  show "AvgLatency (recordLatency rs d)
           = tdiv (sum_list (LatencyHistory (recordLatency rs d)))
                  (int (length (LatencyHistory (recordLatency rs d))))"
    unfolding hist by (subst rl) simp
qed


lemma window_drop:
  assumes "length h \<le> 100"
  shows "(if length h < 100 then h @ [d] else tl h @ [d])
         = drop (length (h @ [d]) - 100) (h @ [d])"
proof (cases "length h < 100")
  case True
  then show ?thesis by simp
next
  case False
  with assms have l: "length h = 100" by simp
  then have "h \<noteq> []" by auto
  then show ?thesis using l by (simp add: drop_Suc tl_append2)
qed

lemma window_extend:
  "drop (length (drop (length ys - 100) ys @ [d]) - 100) (drop (length ys - 100) ys @ [d])
   = drop (length (ys @ [d]) - 100) (ys @ [d])"
proof (cases "length ys < 100")
  case True
  then show ?thesis by simp
next
  case False
  define k where "k = length ys - 100"
  have k: "length ys = k + 100" using False by (simp add: k_def)
  have "drop (length (drop k ys @ [d]) - 100) (drop k ys @ [d]) = drop 1 (drop k ys @ [d])"
    using k by simp
  also have "\<dots> = drop (Suc k) ys @ [d]"
    using k by simp
  also have "\<dots> = drop (Suc k) (ys @ [d])"
    using k by simp
  also have "Suc k = length (ys @ [d]) - 100"
    using k by simp
  finally show ?thesis unfolding k_def .
qed

lemma latency_sequence_invariant:
  assumes len: "length (LatencyHistory rs) \<le> 100"
    and old: "\<forall>x\<in>set (LatencyHistory rs). \<bar>x\<bar> \<le> 72057594037927936"
    and new: "\<forall>d\<in>set ds. \<bar>d\<bar> \<le> 72057594037927936"
  shows "length (LatencyHistory (foldl recordLatency rs ds)) \<le> 100
    \<and> (\<forall>x\<in>set (LatencyHistory (foldl recordLatency rs ds)). \<bar>x\<bar> \<le> 72057594037927936)
    \<and> LatencyHistory (foldl recordLatency rs ds)
        = drop (length (LatencyHistory rs @ ds) - 100) (LatencyHistory rs @ ds)"
  using new
proof (induction ds rule: rev_induct)
  case Nil
  with len old show ?case by simp
next
  case (snoc d ds)
  let ?rs = "foldl recordLatency rs ds"
  let ?all = "LatencyHistory rs @ ds"
  from snoc have ih: "length (LatencyHistory ?rs) \<le> 100"
    "\<forall>x\<in>set (LatencyHistory ?rs). \<bar>x\<bar> \<le> 72057594037927936"
    "LatencyHistory ?rs = drop (length ?all - 100) ?all"
    and d: "\<bar>d\<bar> \<le> 72057594037927936"
    by simp_all
  note step = recordLatency_step [OF ih(1) ih(2) d]
  have "LatencyHistory (recordLatency ?rs d)
        = drop (length (LatencyHistory ?rs @ [d]) - 100) (LatencyHistory ?rs @ [d])"
    using step(1) window_drop [OF ih(1), of d] by simp
  also have "\<dots> = drop (length (?all @ [d]) - 100) (?all @ [d])"
    unfolding ih(3) by (rule window_extend)
  finally have "LatencyHistory (recordLatency ?rs d)
        = drop (length (LatencyHistory rs @ ds @ [d]) - 100) (LatencyHistory rs @ ds @ [d])"
    by simp
  with step(2) step(4) show ?case by simp
qed

text \<open>
  Claim C8, as amended.  Start from statistics whose history holds at most 100 samples and
  record any non-empty sequence of samples, every sample involved being of magnitude at
  most \<open>2^56\<close> nanoseconds (so that the \<open>int64\<close> sum of a window cannot wrap).  Then the
  history is the last 100 of all samples, so it has length at most 100 and the oldest
  samples are the ones dropped; \<open>MinLatency\<close> and \<open>MaxLatency\<close> are the minimum and the
  maximum of the window; \<open>AvgLatency\<close> is the sum of the window divided by its length,
  truncated; and \<open>MinLatency \<le> AvgLatency \<le> MaxLatency\<close>.  Every prefix of a sequence
  is a sequence, so this holds after each call.
\<close>

theorem recordLatency_window:
  assumes len: "length (LatencyHistory rs) \<le> 100"
    and old: "\<forall>x\<in>set (LatencyHistory rs). \<bar>x\<bar> \<le> 2 ^ 56"
    and new: "\<forall>d\<in>set ds. \<bar>d\<bar> \<le> 2 ^ 56"
    and ne: "ds \<noteq> []"
  shows "LatencyHistory (foldl recordLatency rs ds)
           = drop (length (LatencyHistory rs @ ds) - 100) (LatencyHistory rs @ ds)
    \<and> length (LatencyHistory (foldl recordLatency rs ds)) \<le> 100
    \<and> MinLatency (foldl recordLatency rs ds) = Min (set (LatencyHistory (foldl recordLatency rs ds)))
    \<and> MaxLatency (foldl recordLatency rs ds) = Max (set (LatencyHistory (foldl recordLatency rs ds)))
    \<and> AvgLatency (foldl recordLatency rs ds)
        = tdiv (sum_list (LatencyHistory (foldl recordLatency rs ds)))
               (int (length (LatencyHistory (foldl recordLatency rs ds))))
    \<and> MinLatency (foldl recordLatency rs ds) \<le> AvgLatency (foldl recordLatency rs ds)
    \<and> AvgLatency (foldl recordLatency rs ds) \<le> MaxLatency (foldl recordLatency rs ds)"
proof -
  have e: "(2 :: int) ^ 56 = 72057594037927936" by simp
  from ne obtain ds' d where ds: "ds = ds' @ [d]" by (cases ds rule: rev_cases) auto
  let ?rs = "foldl recordLatency rs ds'"
  have new': "\<forall>d\<in>set ds'. \<bar>d\<bar> \<le> 72057594037927936" and d: "\<bar>d\<bar> \<le> 72057594037927936"
    using new ds e by simp_all
  from latency_sequence_invariant [OF len old [unfolded e] new']
  have inv: "length (LatencyHistory ?rs) \<le> 100"
    "\<forall>x\<in>set (LatencyHistory ?rs). \<bar>x\<bar> \<le> 72057594037927936"
    by simp_all
  note step = recordLatency_step [OF inv d]
  have last: "foldl recordLatency rs ds = recordLatency ?rs d" by (simp add: ds)
  let ?h = "LatencyHistory (recordLatency ?rs d)"
  have n: "0 < int (length ?h)" using step(3) by simp
  from tdiv_between [OF n] sum_list_bounds [of ?h]
  have "Min (set ?h) \<le> tdiv (sum_list ?h) (int (length ?h))
        \<and> tdiv (sum_list ?h) (int (length ?h)) \<le> Max (set ?h)"
    by blast
  then have order: "MinLatency (recordLatency ?rs d) \<le> AvgLatency (recordLatency ?rs d)
      \<and> AvgLatency (recordLatency ?rs d) \<le> MaxLatency (recordLatency ?rs d)"
    using step(5,6,7) by simp
  from latency_sequence_invariant [OF len old [unfolded e] new [unfolded e]]
  have "LatencyHistory (foldl recordLatency rs ds)
           = drop (length (LatencyHistory rs @ ds) - 100) (LatencyHistory rs @ ds)"
    by simp
  with step(2,5,6,7) order show ?thesis unfolding last by simp
qed


text \<open>Witness: three samples of 10, 30 and 20 milliseconds recorded into fresh
  statistics.\<close>

theorem recordLatency_window_witness:
  "LatencyHistory (foldl recordLatency zeroRequestStats [10000000, 30000000, 20000000])
     = [10000000, 30000000, 20000000]
   \<and> length (LatencyHistory (foldl recordLatency zeroRequestStats [10000000, 30000000, 20000000]))
       \<le> 100
   \<and> MinLatency (foldl recordLatency zeroRequestStats [10000000, 30000000, 20000000])
       \<le> AvgLatency (foldl recordLatency zeroRequestStats [10000000, 30000000, 20000000])
   \<and> AvgLatency (foldl recordLatency zeroRequestStats [10000000, 30000000, 20000000])
       \<le> MaxLatency (foldl recordLatency zeroRequestStats [10000000, 30000000, 20000000])"
proof -
  have len: "length (LatencyHistory zeroRequestStats) \<le> 100"
    by (simp add: zeroRequestStats_def)
  have old: "\<forall>x\<in>set (LatencyHistory zeroRequestStats). \<bar>x\<bar> \<le> 2 ^ 56"
    by (simp add: zeroRequestStats_def)
  have new: "\<forall>d\<in>set [10000000, 30000000, 20000000 :: int]. \<bar>d\<bar> \<le> 2 ^ 56"
    by simp
  have ne: "[10000000, 30000000, 20000000 :: int] \<noteq> []"
    by simp
  note w = recordLatency_window [OF len old new ne]
  have "LatencyHistory (foldl recordLatency zeroRequestStats [10000000, 30000000, 20000000])
        = drop (length (LatencyHistory zeroRequestStats @ [10000000, 30000000, 20000000]) - 100)
            (LatencyHistory zeroRequestStats @ [10000000, 30000000, 20000000])"
    using w by (rule conjunct1)
  also have "\<dots> = [10000000, 30000000, 20000000]"
    by (simp add: zeroRequestStats_def)
  finally have h: "LatencyHistory (foldl recordLatency zeroRequestStats
      [10000000, 30000000, 20000000]) = [10000000, 30000000, 20000000]" .
  from w have
    "length (LatencyHistory (foldl recordLatency zeroRequestStats [10000000, 30000000, 20000000]))
       \<le> 100"
    "MinLatency (foldl recordLatency zeroRequestStats [10000000, 30000000, 20000000])
       \<le> AvgLatency (foldl recordLatency zeroRequestStats [10000000, 30000000, 20000000])"
    "AvgLatency (foldl recordLatency zeroRequestStats [10000000, 30000000, 20000000])
       \<le> MaxLatency (foldl recordLatency zeroRequestStats [10000000, 30000000, 20000000])"
    by blast+
  with h show ?thesis by blast
qed

text \<open>Counterexample to C8 as stated: two samples of \<open>2^62\<close> nanoseconds.  Their sum
  wraps to \<open>-2^63\<close>, so the average is \<open>-2^62\<close>, below the minimum \<open>2^62\<close>.\<close>

theorem recordLatency_overflow_counterexample:
  "MinLatency (foldl recordLatency zeroRequestStats [4611686018427387904, 4611686018427387904])
     = 4611686018427387904
   \<and> AvgLatency (foldl recordLatency zeroRequestStats [4611686018427387904, 4611686018427387904])
     = - 4611686018427387904
   \<and> \<not> MinLatency (foldl recordLatency zeroRequestStats [4611686018427387904, 4611686018427387904])
        \<le> AvgLatency (foldl recordLatency zeroRequestStats [4611686018427387904, 4611686018427387904])"
  by (simp add: recordLatency_def zeroRequestStats_def LatencyWindowSize_def wrap64_def tdiv_def)

subsection \<open>Epoch analyzer\<close>




















subsection \<open>Integrity write-back\<close>

lemma perfect_processStats:
  "processStats perfectConfig perfectStats = Returns ([(10, Records perfectEpochInput)], [10], 20)"
  by code_simp

lemma perfect_check:
  "checkBackendIntegrity perfectConfig (NewLoadBalancer 0 perfectConfig) ''http://node1''
     (Inr perfectStats) = Returns (perfectChecked perfectConfig)"
  by code_simp

lemma perfect_check_100:
  "checkBackendIntegrity (perfectConfig\<lparr>IntegrityScoreThreshold := 100\<rparr>)
     (NewLoadBalancer 0 (perfectConfig\<lparr>IntegrityScoreThreshold := 100\<rparr>)) ''http://node1''
     (Inr perfectStats) = Returns (perfectChecked (perfectConfig\<lparr>IntegrityScoreThreshold := 100\<rparr>))"
  by code_simp

lemma updateFirst_first:
  "i < length bs \<Longrightarrow> URL (bs ! i) = url \<Longrightarrow> \<forall>j<i. URL (bs ! j) \<noteq> url \<Longrightarrow>
     updateFirst url f bs ! i = computePriority (f (bs ! i))"
proof (induction bs arbitrary: i)
  case Nil
  then show ?case by simp
next
  case (Cons b bs)
  show ?case
  proof (cases i)
    case 0
    with Cons.prems show ?thesis by simp
  next
    case (Suc k)
    have "URL b \<noteq> url" using Cons.prems(3) Suc by (metis nth_Cons_0 zero_less_Suc)
    moreover have "\<forall>j<k. URL (bs ! j) \<noteq> url"
      using Cons.prems(3) Suc by (metis Suc_less_eq nth_Cons_Suc)
    ultimately show ?thesis using Cons.IH [of k] Cons.prems(1,2) Suc by simp
  qed
qed

lemma writeBack_stats:
  "IntegrityStats (computePriority (writeBack c stats avg missing inc n cur oldest b))
     = Some st \<Longrightarrow>
   Score st = avg \<and> MissingEpochs st = missing \<and> InconsistentEpochs st = inc
   \<and> IntegrityStats.Status st =
       (if avg = 100 then ''perfect''
        else if avg > IntegrityScoreThreshold c then ''good'' else ''bad'')"
  by (auto simp: computePriority_stats writeBack_def Let_def)

lemma writeBack_stats_ex:
  "\<exists>st. IntegrityStats (computePriority (writeBack c stats avg missing inc n cur oldest b))
     = Some st"
  by (simp add: computePriority_stats)

lemma rbind_Returns: "rbind m f = Returns y \<longleftrightarrow> (\<exists>x. m = Returns x \<and> f x = Returns y)"
  by (cases m) (simp_all add: rbind_def)

lemma check_writes:
  assumes ps: "processStats c stats = Returns (epochRecords, epochs, oldestSlot)"
    and ne: "epochs \<noteq> []"
    and ret: "checkBackendIntegrity c lb url (Inr stats) = Returns lb'"
  shows "\<exists>avg missing inc cur trimmed tot cnt.
      trimEpochs (IntegrityCheckEpochs c) epochs = Returns trimmed \<and> trimmed \<noteq> []
    \<and> findGaps (hd trimmed) (last trimmed) trimmed = Returns missing
    \<and> go_div (fst (Atoi (GetValidatorsStatsResponse.LastProcessedSlot stats)))
         (Config.SlotsPerEpoch c) = Returns cur
    \<and> epochLoop c epochRecords (int (length epochs)) (hd trimmed) cur trimmed
         ([], 0, 0, 100) = Returns (inc, tot, cnt, avg)
    \<and> lb' = UpdateBackendStateByUrl lb url
              (writeBack c stats avg missing inc (int (length epochs)) cur oldestSlot)"
proof -
  from ret ps ne obtain trimmed where t: "trimEpochs (IntegrityCheckEpochs c) epochs = Returns trimmed"
    and r1: "(case trimmed of [] \<Rightarrow> Panics
       | minEpoch # x \<Rightarrow>
           let maxEpoch = last trimmed
           in rbind (findGaps minEpoch maxEpoch trimmed) (\<lambda>missingEpochs.
                let currentSlot = fst (Atoi (GetValidatorsStatsResponse.LastProcessedSlot stats))
                in rbind (go_div currentSlot (Config.SlotsPerEpoch c)) (\<lambda>currentEpoch.
                     rbind (epochLoop c epochRecords (int (length epochs)) minEpoch
                              currentEpoch trimmed ([], 0, 0, 100))
                       (\<lambda>(inconsistentEpochs, tot, cnt, currentAvgIntegrity).
                          Returns (UpdateBackendStateByUrl lb url
                            (writeBack c stats currentAvgIntegrity missingEpochs
                               inconsistentEpochs (int (length epochs)) currentEpoch
                               oldestSlot)))))) = Returns lb'"
    unfolding checkBackendIntegrity_def by (auto simp: rbind_Returns Let_def)
  from r1 obtain minEpoch rest where tr: "trimmed = minEpoch # rest"
    by (cases trimmed) auto
  from r1 obtain missing cur acc where
    g: "findGaps minEpoch (last trimmed) trimmed = Returns missing"
    and cu: "go_div (fst (Atoi (GetValidatorsStatsResponse.LastProcessedSlot stats)))
         (Config.SlotsPerEpoch c) = Returns cur"
    and el: "epochLoop c epochRecords (int (length epochs)) minEpoch cur trimmed ([], 0, 0, 100)
             = Returns acc"
    and fin: "(case acc of (inconsistentEpochs, tot, cnt, currentAvgIntegrity) \<Rightarrow>
                Returns (UpdateBackendStateByUrl lb url
                  (writeBack c stats currentAvgIntegrity missing inconsistentEpochs
                     (int (length epochs)) cur oldestSlot))) = Returns lb'"
    unfolding tr list.case Let_def rbind_Returns by blast
  obtain inc tot cnt avg where acc: "acc = (inc, tot, cnt, avg)" by (cases acc)
  from fin have "lb' = UpdateBackendStateByUrl lb url
      (writeBack c stats avg missing inc (int (length epochs)) cur oldestSlot)"
    unfolding acc by simp
  with t tr g cu el acc show ?thesis by (intro exI conjI) auto
qed




text \<open>
  Claim C7, as amended.  After an integrity check that writes back (the call succeeded, at
  least one epoch was observed, the check returned), the backend with the probed URL has an
  integrity record with: status \<open>perfect\<close> exactly when the score is 100; status \<open>good\<close>
  exactly when the score is above the threshold and not 100; status \<open>bad\<close> exactly when
  the score is at most the threshold and not 100.  For a threshold below 100 and a score of
  at most 100 these are the equivalences of the claim: \<open>good\<close> exactly when
  \<open>threshold < score < 100\<close> and \<open>bad\<close> exactly when \<open>score \<le> threshold\<close>.
\<close>

theorem writeBack_status_score:
  assumes ps: "processStats c stats = Returns (epochRecords, epochs, oldestSlot)"
    and ne: "epochs \<noteq> []"
    and ret: "checkBackendIntegrity c lb url (Inr stats) = Returns lb'"
    and i: "i < length (backends lb)" "URL (backends lb ! i) = url"
      "\<forall>j<i. URL (backends lb ! j) \<noteq> url"
  shows "\<exists>st. IntegrityStats (backends lb' ! i) = Some st
    \<and> (IntegrityStats.Status st = ''perfect'' \<longleftrightarrow> Score st = 100)
    \<and> (IntegrityStats.Status st = ''good'' \<longleftrightarrow>
          IntegrityScoreThreshold c < Score st \<and> Score st \<noteq> 100)
    \<and> (IntegrityStats.Status st = ''bad'' \<longleftrightarrow>
          Score st \<le> IntegrityScoreThreshold c \<and> Score st \<noteq> 100)
    \<and> (IntegrityScoreThreshold c < 100 \<and> Score st \<le> 100 \<longrightarrow>
          (IntegrityStats.Status st = ''good'' \<longleftrightarrow>
             IntegrityScoreThreshold c < Score st \<and> Score st < 100)
        \<and> (IntegrityStats.Status st = ''bad'' \<longleftrightarrow> Score st \<le> IntegrityScoreThreshold c))"
proof -
  from check_writes [OF ps ne ret] obtain avg missing inc cur where
    lb': "lb' = UpdateBackendStateByUrl lb url
            (writeBack c stats avg missing inc (int (length epochs)) cur oldestSlot)"
    by blast
  let ?b = "computePriority
      (writeBack c stats avg missing inc (int (length epochs)) cur oldestSlot (backends lb ! i))"
  have b: "backends lb' ! i = ?b"
    unfolding lb' using updateFirst_first [OF i] by (simp add: UpdateBackendStateByUrl_def)
  obtain st where st: "IntegrityStats ?b = Some st"
    using writeBack_stats_ex by blast
  note w = writeBack_stats [OF st]
  have "IntegrityStats.Status st = ''perfect'' \<longleftrightarrow> Score st = 100"
    using w by auto
  moreover have "IntegrityStats.Status st = ''good'' \<longleftrightarrow>
      IntegrityScoreThreshold c < Score st \<and> Score st \<noteq> 100"
    using w by auto
  moreover have "IntegrityStats.Status st = ''bad'' \<longleftrightarrow>
      Score st \<le> IntegrityScoreThreshold c \<and> Score st \<noteq> 100"
    using w by auto
  moreover have "IntegrityScoreThreshold c < 100 \<and> Score st \<le> 100 \<longrightarrow>
          (IntegrityStats.Status st = ''good'' \<longleftrightarrow>
             IntegrityScoreThreshold c < Score st \<and> Score st < 100)
        \<and> (IntegrityStats.Status st = ''bad'' \<longleftrightarrow> Score st \<le> IntegrityScoreThreshold c)"
    using w by auto
  ultimately show ?thesis using b st by auto
qed

text \<open>Witness: the integrity test, with threshold 95; the score written is 100 and the
  status is \<open>perfect\<close>.\<close>

theorem writeBack_status_score_witness:
  "IntegrityScoreThreshold perfectConfig < 100
   \<and> map (map_option Score \<circ> IntegrityStats) (backends (perfectChecked perfectConfig)) = [Some 100]
   \<and> map (map_option IntegrityStats.Status \<circ> IntegrityStats)
        (backends (perfectChecked perfectConfig)) = [Some ''perfect'']
   \<and> (\<exists>st. IntegrityStats (backends (perfectChecked perfectConfig) ! 0) = Some st
         \<and> (IntegrityStats.Status st = ''bad'') = (Score st \<le> IntegrityScoreThreshold perfectConfig))"
proof -
  have i: "0 < length (backends (NewLoadBalancer 0 perfectConfig))"
    "URL (backends (NewLoadBalancer 0 perfectConfig) ! 0) = ''http://node1''"
    "\<forall>j<0. URL (backends (NewLoadBalancer 0 perfectConfig) ! j) \<noteq> ''http://node1''"
    by (simp_all add: NewLoadBalancer_def perfectConfig_def newBackend_def)
  have ne: "[10 :: int] \<noteq> []" by simp
  from writeBack_status_score [OF perfect_processStats ne perfect_check i]
  obtain st where st: "IntegrityStats (backends (perfectChecked perfectConfig) ! 0) = Some st"
    and imp: "IntegrityScoreThreshold perfectConfig < 100 \<and> Score st \<le> 100 \<longrightarrow>
          (IntegrityStats.Status st = ''good'' \<longleftrightarrow>
             IntegrityScoreThreshold perfectConfig < Score st \<and> Score st < 100)
        \<and> (IntegrityStats.Status st = ''bad'' \<longleftrightarrow> Score st \<le> IntegrityScoreThreshold perfectConfig)"
    by blast
  have thr: "IntegrityScoreThreshold perfectConfig < 100" by (simp add: perfectConfig_def)
  have sc: "Score st \<le> 100" using st by (auto simp: perfectChecked_def)
  from imp thr sc
  have "(IntegrityStats.Status st = ''bad'') = (Score st \<le> IntegrityScoreThreshold perfectConfig)"
    by blast
  with st have "\<exists>st. IntegrityStats (backends (perfectChecked perfectConfig) ! 0) = Some st
         \<and> (IntegrityStats.Status st = ''bad'') = (Score st \<le> IntegrityScoreThreshold perfectConfig)"
    by blast
  moreover have
    "map (map_option Score \<circ> IntegrityStats) (backends (perfectChecked perfectConfig)) = [Some 100]"
    "map (map_option IntegrityStats.Status \<circ> IntegrityStats)
        (backends (perfectChecked perfectConfig)) = [Some ''perfect'']"
    by (simp_all add: perfectChecked_def)
  ultimately show ?thesis using thr by blast
qed

text \<open>Counterexample to C7 as stated: with the threshold set to 100 the same check writes
  score 100 and status \<open>perfect\<close>, although the score is at most the threshold.\<close>

theorem threshold_100_counterexample:
  "checkBackendIntegrity (perfectConfig\<lparr>IntegrityScoreThreshold := 100\<rparr>)
     (NewLoadBalancer 0 (perfectConfig\<lparr>IntegrityScoreThreshold := 100\<rparr>)) ''http://node1''
     (Inr perfectStats) = Returns (perfectChecked (perfectConfig\<lparr>IntegrityScoreThreshold := 100\<rparr>))
   \<and> map (map_option Score \<circ> IntegrityStats)
        (backends (perfectChecked (perfectConfig\<lparr>IntegrityScoreThreshold := 100\<rparr>))) = [Some 100]
   \<and> map (map_option IntegrityStats.Status \<circ> IntegrityStats)
        (backends (perfectChecked (perfectConfig\<lparr>IntegrityScoreThreshold := 100\<rparr>)))
       = [Some ''perfect'']
   \<and> (100 :: int) \<le> IntegrityScoreThreshold (perfectConfig\<lparr>IntegrityScoreThreshold := 100\<rparr>)
   \<and> ''perfect'' \<noteq> ''bad''"
  using perfect_check_100 by (simp add: perfectChecked_def)

subsection \<open>Checks that score no epoch\<close>







subsection \<open>Slot strings that do not parse\<close>


lemma go_div_zero: "b \<noteq> 0 \<Longrightarrow> go_div 0 b = Returns 0"
  by (simp add: go_div_def tdiv_def wrap64_def)












end
